theory Spec2Isabelle
  imports Complex_Main "HOL-Library.Multiset"
begin

section \<open>JSON values as the Python runtime holds them\<close>

text \<open>
  The differ and the enforcement handler work on the values that \<^verbatim>\<open>json.loads\<close> builds: \<^verbatim>\<open>None\<close>,
  \<^verbatim>\<open>bool\<close>, \<^verbatim>\<open>int\<close> (unbounded), \<^verbatim>\<open>float\<close>, \<^verbatim>\<open>str\<close>, \<^verbatim>\<open>list\<close> and \<^verbatim>\<open>dict\<close>.
  A \<^verbatim>\<open>dict\<close> is an association list in its enumeration (insertion) order; a Python
  dict holds every key once, which \<open>wf_json\<close> below states.

  A \<^verbatim>\<open>float\<close> is a finite value, carried by its exact rational value, one of the two
  infinities, or a NaN: \<^verbatim>\<open>json.loads\<close> reads the literals \<^verbatim>\<open>Infinity\<close>, \<^verbatim>\<open>-Infinity\<close> and
  \<^verbatim>\<open>NaN\<close>. A NaN carries the identity of its float object (a number), since the runtime
  compares the elements of a list and the values of a dict by identity before \<^verbatim>\<open>==\<close>, and a
  NaN is the one value that is not \<^verbatim>\<open>==\<close> to itself.
\<close>

datatype pyfloat = Finite rat | PosInf | NegInf | NaN nat

datatype json =
    JNull
  | JBool bool
  | JInt int
  | JFloat pyfloat
  | JStr string
  | JList "json list"
  | JDict "(string \<times> json) list"

datatype pytype = NoneType | Tbool | Tint | Tfloat | Tstr | Tlist | Tdict

text \<open>\<^verbatim>\<open>type(x)\<close>.\<close>

fun py_type :: "json \<Rightarrow> pytype" where
  "py_type JNull = NoneType"
| "py_type (JBool _) = Tbool"
| "py_type (JInt _) = Tint"
| "py_type (JFloat _) = Tfloat"
| "py_type (JStr _) = Tstr"
| "py_type (JList _) = Tlist"
| "py_type (JDict _) = Tdict"

text \<open>\<^verbatim>\<open>a == b\<close> on two floats: a NaN equals nothing, itself included.\<close>

fun float_eq :: "pyfloat \<Rightarrow> pyfloat \<Rightarrow> bool" where
  "float_eq (Finite q) (Finite r) = (q = r)"
| "float_eq PosInf PosInf = True"
| "float_eq NegInf NegInf = True"
| "float_eq _ _ = False"

text \<open>
  \<^verbatim>\<open>a is b\<close>, where it decides a comparison: two NaN that are the same float object. For
  every other value the same object is \<^verbatim>\<open>==\<close> to itself anyway.
\<close>

fun same_nan :: "json \<Rightarrow> json \<Rightarrow> bool" where
  "same_nan (JFloat (NaN i)) (JFloat (NaN j)) = (i = j)"
| "same_nan _ _ = False"

text \<open>
  \<^verbatim>\<open>a == b\<close>: numbers compare by value across \<^verbatim>\<open>bool\<close>, \<^verbatim>\<open>int\<close> and \<^verbatim>\<open>float\<close>
  (\<^verbatim>\<open>True == 1 == 1.0\<close>), lists compare element by element, and dicts compare as
  mappings: the same number of keys, and every key of the left one bound on the right to
  an equal value. Elements and values are compared by \<^verbatim>\<open>a is b or a == b\<close>.
\<close>

fun py_eq :: "json \<Rightarrow> json \<Rightarrow> bool" where
  "py_eq JNull b = (b = JNull)"
| "py_eq (JStr s) b = (b = JStr s)"
| "py_eq (JBool x) (JBool y) = (x = y)"
| "py_eq (JBool x) (JInt j) = ((if x then 1 else 0) = j)"
| "py_eq (JBool x) (JFloat g) = float_eq (Finite (if x then 1 else 0)) g"
| "py_eq (JBool x) _ = False"
| "py_eq (JInt i) (JBool y) = (i = (if y then 1 else 0))"
| "py_eq (JInt i) (JInt j) = (i = j)"
| "py_eq (JInt i) (JFloat g) = float_eq (Finite (of_int i)) g"
| "py_eq (JInt i) _ = False"
| "py_eq (JFloat f) (JBool y) = float_eq f (Finite (if y then 1 else 0))"
| "py_eq (JFloat f) (JInt j) = float_eq f (Finite (of_int j))"
| "py_eq (JFloat f) (JFloat g) = float_eq f g"
| "py_eq (JFloat f) _ = False"
| "py_eq (JList xs) (JList ys) = list_all2 (\<lambda>x y. same_nan x y \<or> py_eq x y) xs ys"
| "py_eq (JList xs) _ = False"
| "py_eq (JDict a) (JDict b) =
     (length a = length b \<and>
      list_all (\<lambda>(k, v). case map_of b k of
                          None \<Rightarrow> False
                        | Some w \<Rightarrow> same_nan v w \<or> py_eq v w) a)"
| "py_eq (JDict a) _ = False"



section \<open>The tree differ (utils/jsonpatcher.py)\<close>

text \<open>\<^verbatim>\<open>sep.join(xs)\<close>.\<close>

fun join :: "string \<Rightarrow> string list \<Rightarrow> string" where
  "join sep [] = []"
| "join sep [x] = x"
| "join sep (x # y # ys) = x @ sep @ join sep (y # ys)"

text \<open>\<^verbatim>\<open>s.replace(c, r)\<close> for a pattern \<open>c\<close> of one character, as both calls of \<^verbatim>\<open>_path\<close> have it.\<close>

definition replace :: "string \<Rightarrow> char \<Rightarrow> string \<Rightarrow> string" where
  "replace s c r = concat (map (\<lambda>x. if x = c then r else [x]) s)"

text \<open>
  \<^verbatim>\<open>_path(parent, key)\<close>: the key is escaped, the segments of \<open>parent\<close> are joined as they
  are. Keys of a JSON object are strings, so \<^verbatim>\<open>str(key)\<close> is the key.
\<close>

definition u_path :: "string list \<Rightarrow> string \<Rightarrow> string" where
  "u_path parent key =
     (let esc = replace (replace key CHR ''~'' ''~0'') CHR ''/'' ''~1''
      in if parent \<noteq> [] \<or> key \<noteq> [] then ''/'' @ join ''/'' (parent @ [esc]) else ''/'')"

text \<open>An operation of a patch: the dict \<^verbatim>\<open>{"op", "path", "value"}\<close>; a remove has no value.\<close>

record patch_op =
  op :: string
  path :: string
  val :: "json option"

definition replace_op :: "string \<Rightarrow> json \<Rightarrow> patch_op" where
  "replace_op p v = \<lparr>op = ''replace'', path = p, val = Some v\<rparr>"

definition add_op :: "string \<Rightarrow> json \<Rightarrow> patch_op" where
  "add_op p v = \<lparr>op = ''add'', path = p, val = Some v\<rparr>"

definition remove_op :: "string \<Rightarrow> patch_op" where
  "remove_op p = \<lparr>op = ''remove'', path = p, val = None\<rparr>"


text \<open>
  \<^verbatim>\<open>_diff(old, new, parent, patch)\<close>. The list \<open>patch\<close> that the source appends to is
  passed and returned. \<open>diff_items\<close> is the loop \<^verbatim>\<open>for k in new.keys()\<close> over the entries
  of \<open>new\<close> in their enumeration order, \<open>v\<close> being \<^verbatim>\<open>new[k]\<close>.
\<close>

fun u_diff :: "(string list \<Rightarrow> string list) \<Rightarrow> json \<Rightarrow> json \<Rightarrow> string list
      \<Rightarrow> patch_op list \<Rightarrow> patch_op list"
  and diff_items :: "(string list \<Rightarrow> string list) \<Rightarrow> (string \<times> json) list
      \<Rightarrow> (string \<times> json) list \<Rightarrow> string list \<Rightarrow> patch_op list \<Rightarrow> patch_op list"
where
  "u_diff so old new parent patch =
     (if py_type old \<noteq> py_type new then
        patch @ [replace_op (if parent = [] then ''/'' else ''/'' @ join ''/'' parent) new]
      else (case old of
          JDict od \<Rightarrow>
            (case new of
               JDict nd \<Rightarrow>
                 diff_items so od nd parent
                   (patch @ map (\<lambda>k. remove_op (u_path parent k))
                      (so (filter (\<lambda>k. map_of nd k = None) (map fst od))))
             | _ \<Rightarrow> patch)
        | JList xs \<Rightarrow>
            (if \<not> py_eq old new then patch @ [replace_op (''/'' @ join ''/'' parent) new]
             else patch)
        | _ \<Rightarrow>
            (if \<not> py_eq old new then patch @ [replace_op (''/'' @ join ''/'' parent) new]
             else patch)))"
| "diff_items so od [] parent patch = patch"
| "diff_items so od ((k, v) # rest) parent patch =
     diff_items so od rest parent
       (case map_of od k of
          None \<Rightarrow> patch @ [add_op (u_path parent k) v]
        | Some ov \<Rightarrow> u_diff so ov v (parent @ [k]) patch)"

definition make_patch :: "(string list \<Rightarrow> string list) \<Rightarrow> json \<Rightarrow> json \<Rightarrow> patch_op list" where
  "make_patch so current desired = u_diff so current desired [] []"

section \<open>The approval lookup (connectors/jira.py)\<close>

text \<open>
  What the handler can raise: an exception of the HTTP client (timeout, connection or
  transport error) with its message, and the \<^verbatim>\<open>AttributeError\<close> of \<^verbatim>\<open>.get\<close> on a value
  that is not a dict.
\<close>

datatype exn = HTTPError string | AttributeError

text \<open>
  What \<^verbatim>\<open>session.get(url, ...)\<close> does: it raises, or it returns a response with its
  status code, the value of \<^verbatim>\<open>r.json()\<close> (\<open>None\<close> when \<^verbatim>\<open>r.json()\<close> raises: the body
  is not JSON) and \<^verbatim>\<open>r.text\<close>.
\<close>

datatype http_outcome = Raises string | Responds int "json option" string

record jira_connector =
  base :: string
  session_get :: "string \<Rightarrow> http_outcome"

text \<open>
  \<^verbatim>\<open>JiraConnector.get_issue\<close>. The requests sent are logged in \<open>reqs\<close> (the URLs, oldest
  first), so that a theorem can say whether the lookup took place. Only \<^verbatim>\<open>r.json()\<close>
  stands inside the \<^verbatim>\<open>try\<close>; an exception of \<^verbatim>\<open>session.get\<close> leaves the method.
\<close>

definition get_issue :: "jira_connector \<Rightarrow> string \<Rightarrow> string list \<Rightarrow> (exn + json) \<times> string list" where
  "get_issue jc issue_key reqs =
     (let url = base jc @ ''/rest/api/3/issue/'' @ issue_key in
      (case session_get jc url of
         Raises e \<Rightarrow> Inl (HTTPError e)
       | Responds sc body txt \<Rightarrow>
           (let data = (case body of
                          Some d \<Rightarrow> d
                        | None \<Rightarrow> JDict [(''status_code'', JInt sc), (''text'', JStr txt)])
            in Inr (JDict [(''status_code'', JInt sc), (''data'', data)])),
       reqs @ [url]))"

section \<open>The enforcement handler (app.py, zpa_enforce)\<close>

text \<open>\<^verbatim>\<open>x.get(k, dflt)\<close>: only a dict has the method.\<close>

fun py_get :: "json \<Rightarrow> string \<Rightarrow> json \<Rightarrow> exn + json" where
  "py_get (JDict d) k dflt = Inr (case map_of d k of Some v \<Rightarrow> v | None \<Rightarrow> dflt)"
| "py_get _ k dflt = Inl AttributeError"

text \<open>
  \<^verbatim>\<open>ji.get("data",{}).get("fields",{}).get("status",{}).get("name","")\<close>, evaluated
  left to right.
\<close>

definition status_name :: "json \<Rightarrow> exn + json" where
  "status_name ji =
     (case py_get ji ''data'' (JDict []) of
        Inl e \<Rightarrow> Inl e
      | Inr d \<Rightarrow>
          (case py_get d ''fields'' (JDict []) of
             Inl e \<Rightarrow> Inl e
           | Inr f \<Rightarrow>
               (case py_get f ''status'' (JDict []) of
                  Inl e \<Rightarrow> Inl e
                | Inr st \<Rightarrow> py_get st ''name'' (JStr []))))"

text \<open>\<^verbatim>\<open>s.lower()\<close> on the letters A to Z; no other character lowers to a letter of "true".\<close>

definition lower_char :: "char \<Rightarrow> char" where
  "lower_char c =
     (let n = (of_char c :: nat) in if 65 \<le> n \<and> n \<le> 90 then char_of (n + 32) else c)"

definition lower :: "string \<Rightarrow> string" where
  "lower s = map lower_char s"

text \<open>
  The process-wide counters \<^verbatim>\<open>ZPA_ENFORCE_ATTEMPTS\<close>, \<^verbatim>\<open>ZPA_ENFORCE_APPLIED\<close> and
  \<^verbatim>\<open>ZPA_ENFORCE_BLOCKED\<close>, and the log of the requests sent to the ticketing system.
\<close>

record enforce_state =
  attempts :: nat
  applied :: nat
  blocked :: nat
  requests :: "string list"

text \<open>The dict that \<^verbatim>\<open>zpa_enforce\<close> returns; \<open>note_text\<close> is its key \<^verbatim>\<open>"note"\<close>.\<close>

record decision =
  status :: string
  reason :: "string option"
  applied_ops :: "nat option"
  note_text :: "string option"

text \<open>
  \<^verbatim>\<open>f"{x}"\<close>: a string is itself, any other value is printed by the runtime's \<^verbatim>\<open>repr\<close>,
  which is a parameter.
\<close>

definition py_str :: "(json \<Rightarrow> string) \<Rightarrow> json \<Rightarrow> string" where
  "py_str repr x = (case x of JStr s \<Rightarrow> s | _ \<Rightarrow> repr x)"

definition blocked_reason :: "(json \<Rightarrow> string) \<Rightarrow> json \<Rightarrow> string list \<Rightarrow> string" where
  "blocked_reason repr sn allow_statuses =
     ''JIRA status '' @ [CHR 0x27] @ py_str repr sn @ [CHR 0x27] @ '' not in allowlist ''
       @ repr (JList (map JStr allow_statuses))"

text \<open>
  \<^verbatim>\<open>zpa_enforce(patch, jira_issue_key, allow_statuses)\<close> in the environment \<open>getenv\<close>,
  from the state \<open>s0\<close>. An exception leaves the function with the counters as they are at
  that point: the handler has no \<^verbatim>\<open>try\<close>, and its decorator only a \<^verbatim>\<open>finally\<close>.
\<close>

definition zpa_enforce :: "(string \<Rightarrow> string option) \<Rightarrow> (json \<Rightarrow> string) \<Rightarrow> jira_connector
      \<Rightarrow> json list \<Rightarrow> string \<Rightarrow> string list \<Rightarrow> enforce_state \<Rightarrow> (exn + decision) \<times> enforce_state" where
  "zpa_enforce getenv repr jc patch jira_issue_key allow_statuses s0 =
     (let s1 = s0\<lparr>attempts := attempts s0 + 1\<rparr> in
      if lower (case getenv ''ZPA_ENABLE_ENFORCE'' of None \<Rightarrow> ''false'' | Some v \<Rightarrow> v) \<noteq> ''true''
      then
        (Inr \<lparr>status = ''blocked'',
              reason = Some ''ZPA enforcement disabled (set ZPA_ENABLE_ENFORCE=true)'',
              applied_ops = None, note_text = None\<rparr>,
         s1\<lparr>blocked := blocked s1 + 1\<rparr>)
      else
        (case get_issue jc jira_issue_key (requests s1) of
           (r, reqs) \<Rightarrow>
             (let s2 = s1\<lparr>requests := reqs\<rparr> in
              (case r of
                 Inl e \<Rightarrow> (Inl e, s2)
               | Inr ji \<Rightarrow>
                   (case status_name ji of
                      Inl e \<Rightarrow> (Inl e, s2)
                    | Inr sn \<Rightarrow>
                        if \<not> list_ex (\<lambda>a. py_eq (JStr a) sn) allow_statuses then
                          (Inr \<lparr>status = ''blocked'',
                                reason = Some (blocked_reason repr sn allow_statuses),
                                applied_ops = None, note_text = None\<rparr>,
                           s2\<lparr>blocked := blocked s2 + 1\<rparr>)
                        else
                          (Inr \<lparr>status = ''accepted'', reason = None,
                                applied_ops = Some (length patch),
                                note_text = Some ''Map patch ops to ZPA API calls in your tenant''\<rparr>,
                           s2\<lparr>applied := applied s2 + 1\<rparr>))))))"

text \<open>
  The enforcement flag: what the test of \<^verbatim>\<open>zpa_enforce\<close> reads from the environment,
  \<^verbatim>\<open>os.getenv("ZPA_ENABLE_ENFORCE","false").lower() == "true"\<close>.
\<close>

definition enforcement_enabled :: "(string \<Rightarrow> string option) \<Rightarrow> bool" where
  "enforcement_enabled getenv =
     (lower (case getenv ''ZPA_ENABLE_ENFORCE'' of None \<Rightarrow> ''false'' | Some v \<Rightarrow> v) = ''true'')"

text \<open>
  A JSON body without a status name, as the chain of \<^verbatim>\<open>.get\<close> can read it: an object in
  which \<^verbatim>\<open>fields\<close>, then \<^verbatim>\<open>status\<close>, then \<^verbatim>\<open>name\<close> is absent, every key before the
  absent one being bound to an object.
\<close>

definition no_status_name :: "json \<Rightarrow> bool" where
  "no_status_name data =
     (case data of
        JDict d \<Rightarrow>
          (case map_of d ''fields'' of
             None \<Rightarrow> True
           | Some (JDict f) \<Rightarrow>
               (case map_of f ''status'' of
                  None \<Rightarrow> True
                | Some (JDict st) \<Rightarrow> map_of st ''name'' = None
                | Some _ \<Rightarrow> False)
           | Some _ \<Rightarrow> False)
      | _ \<Rightarrow> False)"

declare u_diff.simps [simp del]

section \<open>The differ appends to the patch it is given\<close>









section \<open>Idempotence of the differ\<close>




section \<open>Mappings: removes, adds and recursion\<close>



section \<open>The order of the operations\<close>









section \<open>Sequences\<close>

text \<open>
  Two sequences give the patch unchanged when they are equal under \<^verbatim>\<open>==\<close>, and one
  replace of the whole desired sequence at the path of the sequence otherwise; nothing is
  emitted for an element.
\<close>

lemma diff_sequences:
  "u_diff so (JList xs) (JList ys) parent p =
     (if py_eq (JList xs) (JList ys) then p
      else p @ [replace_op (''/'' @ join ''/'' parent) (JList ys)])"
  by (simp add: u_diff.simps)

text \<open>
  C6 at the sequences \<^verbatim>\<open>[1]\<close> and \<^verbatim>\<open>[true]\<close>, which differ in their element: under
  \<^verbatim>\<open>==\<close> the integer 1 and \<^verbatim>\<open>True\<close> are equal, and the differ emits nothing. Outside a
  sequence the same change of value is a replace.
\<close>

theorem diff_sequence_bool_int:
  "JList [JInt 1] \<noteq> JList [JBool True]
   \<and> make_patch (\<lambda>ks. ks) (JDict [(''a'', JList [JInt 1])]) (JDict [(''a'', JList [JBool True])])
       = []
   \<and> make_patch (\<lambda>ks. ks) (JDict [(''a'', JInt 1)]) (JDict [(''a'', JBool True)])
       = [\<lparr>op = ''replace'', path = ''/a'', val = Some (JBool True)\<rparr>]"
  by (simp add: make_patch_def u_diff.simps replace_op_def)

section \<open>Paths\<close>

text \<open>The key that \<^verbatim>\<open>_path\<close> appends is escaped: no slash is left in it.\<close>

lemma escaped_key_no_slash:
  "CHR ''/'' \<notin> set (replace (replace k CHR ''~'' ''~0'') CHR ''/'' ''~1'')"
  by (auto simp add: replace_def)

text \<open>
  C7 at keys that hold a slash. A replace below the key \<^verbatim>\<open>a/b\<close> has the path
  \<^verbatim>\<open>/a/b\<close>, the path of the key \<^verbatim>\<open>b\<close> below the key \<^verbatim>\<open>a\<close>: the segments of the
  parent are joined unescaped. An add below the key \<^verbatim>\<open>x/y\<close> escapes its own key only.
  The root path is \<^verbatim>\<open>/\<close>.
\<close>

theorem diff_path_unescaped:
  "make_patch (\<lambda>ks. ks) (JDict [(''a/b'', JInt 1)]) (JDict [(''a/b'', JInt 2)])
       = [\<lparr>op = ''replace'', path = ''/a/b'', val = Some (JInt 2)\<rparr>]
   \<and> make_patch (\<lambda>ks. ks) (JDict [(''a'', JDict [(''b'', JInt 1)])])
                              (JDict [(''a'', JDict [(''b'', JInt 2)])])
       = [\<lparr>op = ''replace'', path = ''/a/b'', val = Some (JInt 2)\<rparr>]
   \<and> make_patch (\<lambda>ks. ks) (JDict [(''x/y'', JDict [])])
                              (JDict [(''x/y'', JDict [(''k~/'', JInt 1)])])
       = [\<lparr>op = ''add'', path = ''/x/y/k~0~1'', val = Some (JInt 1)\<rparr>]
   \<and> make_patch (\<lambda>ks. ks) (JInt 1) (JStr ''s'')
       = [\<lparr>op = ''replace'', path = ''/'', val = Some (JStr ''s'')\<rparr>]"
  by (simp add: make_patch_def u_diff.simps replace_op_def add_op_def u_path_def replace_def)

section \<open>Enforcement disabled\<close>

lemma lower_false: "lower ''false'' \<noteq> ''true''"
  by (simp add: lower_def lower_char_def)

text \<open>
  C2, as the code has it. When the enforcement flag is false, \<^verbatim>\<open>zpa_enforce\<close> returns a
  blocked decision whose reason is the string
  \<^verbatim>\<open>ZPA enforcement disabled (set ZPA_ENABLE_ENFORCE=true)\<close>, it counts one attempt and
  one blocked call, and it sends no request: this holds for every patch, issue key,
  allowlist and answer of the ticketing system. The flag is false when the variable is
  unset.
\<close>

theorem enforce_disabled:
  assumes "\<not> enforcement_enabled getenv"
  shows "zpa_enforce getenv repr jc patch key allow s0 =
           (Inr \<lparr>status = ''blocked'',
                 reason = Some ''ZPA enforcement disabled (set ZPA_ENABLE_ENFORCE=true)'',
                 applied_ops = None, note_text = None\<rparr>,
            s0\<lparr>attempts := attempts s0 + 1, blocked := blocked s0 + 1\<rparr>)
         \<and> requests (snd (zpa_enforce getenv repr jc patch key allow s0)) = requests s0
         \<and> \<not> enforcement_enabled (getenv(''ZPA_ENABLE_ENFORCE'' := None))"
  using assms by (simp add: zpa_enforce_def enforcement_enabled_def Let_def lower_false)

text \<open>The theorem where the ticket is approved and the variable is set to "no".\<close>

theorem enforce_disabled_witness:
  "\<not> enforcement_enabled (\<lambda>k. Some ''no'')
   \<and> zpa_enforce (\<lambda>k. Some ''no'') (\<lambda>j. ''?'')
        \<lparr>base = ''https://jira'',
         session_get = (\<lambda>u. Responds 200
            (Some (JDict [(''fields'', JDict [(''status'', JDict [(''name'', JStr ''Approved'')])])])) [])\<rparr>
        [JNull] ''TICK-1'' [''Approved'']
        \<lparr>attempts = 4, applied = 1, blocked = 3, requests = []\<rparr>
     = (Inr \<lparr>status = ''blocked'',
             reason = Some ''ZPA enforcement disabled (set ZPA_ENABLE_ENFORCE=true)'',
             applied_ops = None, note_text = None\<rparr>,
        \<lparr>attempts = 5, applied = 1, blocked = 4, requests = []\<rparr>)"
  using enforce_disabled[of "\<lambda>k. Some ''no''" "\<lambda>j. ''?''"
        "\<lparr>base = ''https://jira'',
         session_get = (\<lambda>u. Responds 200
            (Some (JDict [(''fields'', JDict [(''status'', JDict [(''name'', JStr ''Approved'')])])])) [])\<rparr>"
        "[JNull]" "''TICK-1''" "[''Approved'']"
        "\<lparr>attempts = 4, applied = 1, blocked = 3, requests = []\<rparr>"]
  by (simp add: enforcement_enabled_def lower_def lower_char_def)

text \<open>
  C2 as the spec words it fails: with the variable unset the reason is not the string
  \<^verbatim>\<open>enforcement disabled\<close>.
\<close>

theorem enforce_disabled_reason_counterexample:
  "map_sum id reason (fst (zpa_enforce (\<lambda>k. None) (\<lambda>j. ''?'')
        \<lparr>base = ''https://jira'', session_get = (\<lambda>u. Raises ''unused'')\<rparr>
        [] ''TICK-1'' [''Approved'']
        \<lparr>attempts = 0, applied = 0, blocked = 0, requests = []\<rparr>))
     \<noteq> Inr (Some ''enforcement disabled'')"
  by (simp add: zpa_enforce_def Let_def lower_def lower_char_def)

section \<open>The decision on a status string\<close>

lemma enforce_on_status:
  assumes "enforcement_enabled getenv"
      and "get_issue jc key (requests s0) = (Inr ji, reqs)"
      and "status_name ji = Inr (JStr s)"
  shows "zpa_enforce getenv repr jc patch key allow s0 =
     (if s \<in> set allow then
        (Inr \<lparr>status = ''accepted'', reason = None, applied_ops = Some (length patch),
              note_text = Some ''Map patch ops to ZPA API calls in your tenant''\<rparr>,
         s0\<lparr>attempts := attempts s0 + 1, requests := reqs, applied := applied s0 + 1\<rparr>)
      else
        (Inr \<lparr>status = ''blocked'',
              reason = Some (''JIRA status '' @ [CHR 0x27] @ s @ [CHR 0x27]
                             @ '' not in allowlist '' @ repr (JList (map JStr allow))),
              applied_ops = None, note_text = None\<rparr>,
         s0\<lparr>attempts := attempts s0 + 1, requests := reqs, blocked := blocked s0 + 1\<rparr>))"
  using assms
  by (auto simp add: zpa_enforce_def enforcement_enabled_def Let_def list_ex_iff
        blocked_reason_def py_str_def)

text \<open>
  C3. When enforcement is enabled and the lookup returns an issue whose status name is the
  string \<open>s\<close>, the decision is made by membership of \<open>s\<close> in the allowlist, the strings
  compared character by character: a member gives an accepted decision with
  \<^verbatim>\<open>applied_ops\<close> the length of the patch; any other string, also one that differs from
  an allowed status only in case, gives a blocked decision whose reason holds \<open>s\<close> and
  the allowlist as the runtime prints it.
\<close>

theorem enforce_status_membership:
  assumes "enforcement_enabled getenv"
      and "get_issue jc key (requests s0) = (Inr ji, reqs)"
      and "status_name ji = Inr (JStr s)"
  shows "zpa_enforce getenv repr jc patch key allow s0 =
     (if s \<in> set allow then
        (Inr \<lparr>status = ''accepted'', reason = None, applied_ops = Some (length patch),
              note_text = Some ''Map patch ops to ZPA API calls in your tenant''\<rparr>,
         s0\<lparr>attempts := attempts s0 + 1, requests := reqs, applied := applied s0 + 1\<rparr>)
      else
        (Inr \<lparr>status = ''blocked'',
              reason = Some (''JIRA status '' @ [CHR 0x27] @ s @ [CHR 0x27]
                             @ '' not in allowlist '' @ repr (JList (map JStr allow))),
              applied_ops = None, note_text = None\<rparr>,
         s0\<lparr>attempts := attempts s0 + 1, requests := reqs, blocked := blocked s0 + 1\<rparr>))"
  using assms by (rule enforce_on_status)

text \<open>
  The theorem on three operations and the allowlist \<^verbatim>\<open>["Approved"]\<close>: the status
  \<^verbatim>\<open>Approved\<close> is accepted with three operations applied, the status \<^verbatim>\<open>approved\<close> is
  blocked.
\<close>

theorem enforce_status_membership_witness:
  "enforcement_enabled (\<lambda>k. Some ''true'')
   \<and> zpa_enforce (\<lambda>k. Some ''true'') (\<lambda>j. ''[..]'')
        \<lparr>base = ''https://jira'',
         session_get = (\<lambda>u. Responds 200
            (Some (JDict [(''fields'', JDict [(''status'', JDict [(''name'', JStr ''Approved'')])])])) [])\<rparr>
        [JNull, JNull, JNull] ''TICK-1'' [''Approved'']
        \<lparr>attempts = 0, applied = 0, blocked = 0, requests = []\<rparr>
     = (Inr \<lparr>status = ''accepted'', reason = None, applied_ops = Some 3,
             note_text = Some ''Map patch ops to ZPA API calls in your tenant''\<rparr>,
        \<lparr>attempts = 1, applied = 1, blocked = 0,
         requests = [''https://jira/rest/api/3/issue/TICK-1'']\<rparr>)
   \<and> zpa_enforce (\<lambda>k. Some ''true'') (\<lambda>j. ''[..]'')
        \<lparr>base = ''https://jira'',
         session_get = (\<lambda>u. Responds 200
            (Some (JDict [(''fields'', JDict [(''status'', JDict [(''name'', JStr ''approved'')])])])) [])\<rparr>
        [JNull, JNull, JNull] ''TICK-1'' [''Approved'']
        \<lparr>attempts = 0, applied = 0, blocked = 0, requests = []\<rparr>
     = (Inr \<lparr>status = ''blocked'',
             reason = Some (''JIRA status '' @ [CHR 0x27] @ ''approved'' @ [CHR 0x27]
                            @ '' not in allowlist [..]''),
             applied_ops = None, note_text = None\<rparr>,
        \<lparr>attempts = 1, applied = 0, blocked = 1,
         requests = [''https://jira/rest/api/3/issue/TICK-1'']\<rparr>)"
  using enforce_status_membership[where getenv = "\<lambda>k. Some ''true''" and repr = "\<lambda>j. ''[..]''"
        and jc = "\<lparr>base = ''https://jira'',
         session_get = (\<lambda>u. Responds 200
            (Some (JDict [(''fields'', JDict [(''status'', JDict [(''name'', JStr ''Approved'')])])])) [])\<rparr>"
        and patch = "[JNull, JNull, JNull]" and key = "''TICK-1''" and allow = "[''Approved'']"
        and ?s0.0 = "\<lparr>attempts = 0, applied = 0, blocked = 0, requests = []\<rparr>"
        and ji = "JDict [(''status_code'', JInt 200),
                         (''data'', JDict [(''fields'', JDict [(''status'', JDict [(''name'', JStr ''Approved'')])])])]"
        and reqs = "[''https://jira/rest/api/3/issue/TICK-1'']" and s = "''Approved''"]
     enforce_status_membership[where getenv = "\<lambda>k. Some ''true''" and repr = "\<lambda>j. ''[..]''"
        and jc = "\<lparr>base = ''https://jira'',
         session_get = (\<lambda>u. Responds 200
            (Some (JDict [(''fields'', JDict [(''status'', JDict [(''name'', JStr ''approved'')])])])) [])\<rparr>"
        and patch = "[JNull, JNull, JNull]" and key = "''TICK-1''" and allow = "[''Approved'']"
        and ?s0.0 = "\<lparr>attempts = 0, applied = 0, blocked = 0, requests = []\<rparr>"
        and ji = "JDict [(''status_code'', JInt 200),
                         (''data'', JDict [(''fields'', JDict [(''status'', JDict [(''name'', JStr ''approved'')])])])]"
        and reqs = "[''https://jira/rest/api/3/issue/TICK-1'']" and s = "''approved''"]
  by (simp add: enforcement_enabled_def lower_def lower_char_def get_issue_def status_name_def)

section \<open>When the lookup fails\<close>

text \<open>
  C1 at three failing lookups, enforcement enabled. A timeout of the HTTP client leaves
  \<^verbatim>\<open>zpa_enforce\<close> as an exception: no decision is returned. A 401 answer whose body is
  not JSON is read as the status \<^verbatim>\<open>""\<close>: it is accepted when the allowlist holds the
  empty string, and otherwise blocked with a reason that names the status \<^verbatim>\<open>''\<close> and
  the allowlist, not the failure.
\<close>

theorem enforce_lookup_failure:
  "zpa_enforce (\<lambda>k. Some ''true'') (\<lambda>j. ''[..]'')
        \<lparr>base = ''https://jira'', session_get = (\<lambda>u. Raises ''ConnectTimeout'')\<rparr>
        [JNull] ''TICK-1'' [''Approved'']
        \<lparr>attempts = 0, applied = 0, blocked = 0, requests = []\<rparr>
     = (Inl (HTTPError ''ConnectTimeout''),
        \<lparr>attempts = 1, applied = 0, blocked = 0,
         requests = [''https://jira/rest/api/3/issue/TICK-1'']\<rparr>)
   \<and> zpa_enforce (\<lambda>k. Some ''true'') (\<lambda>j. ''[..]'')
        \<lparr>base = ''https://jira'',
         session_get = (\<lambda>u. Responds 401 None ''Unauthorized'')\<rparr>
        [JNull] ''TICK-1'' [''Approved'', '''']
        \<lparr>attempts = 0, applied = 0, blocked = 0, requests = []\<rparr>
     = (Inr \<lparr>status = ''accepted'', reason = None, applied_ops = Some 1,
             note_text = Some ''Map patch ops to ZPA API calls in your tenant''\<rparr>,
        \<lparr>attempts = 1, applied = 1, blocked = 0,
         requests = [''https://jira/rest/api/3/issue/TICK-1'']\<rparr>)
   \<and> zpa_enforce (\<lambda>k. Some ''true'') (\<lambda>j. ''[..]'')
        \<lparr>base = ''https://jira'',
         session_get = (\<lambda>u. Responds 401 None ''Unauthorized'')\<rparr>
        [JNull] ''TICK-1'' [''Approved'']
        \<lparr>attempts = 0, applied = 0, blocked = 0, requests = []\<rparr>
     = (Inr \<lparr>status = ''blocked'',
             reason = Some (''JIRA status '' @ [CHR 0x27] @ [CHR 0x27]
                            @ '' not in allowlist [..]''),
             applied_ops = None, note_text = None\<rparr>,
        \<lparr>attempts = 1, applied = 0, blocked = 1,
         requests = [''https://jira/rest/api/3/issue/TICK-1'']\<rparr>)"
  by (simp add: zpa_enforce_def Let_def lower_def lower_char_def get_issue_def status_name_def
        blocked_reason_def py_str_def)

section \<open>The counters\<close>

text \<open>
  C9 where the lookup times out: the call counts one attempt, and neither an accepted nor a
  blocked call.
\<close>

theorem enforce_counters_on_failure:
  "snd (zpa_enforce (\<lambda>k. Some ''true'') (\<lambda>j. ''[..]'')
        \<lparr>base = ''https://jira'', session_get = (\<lambda>u. Raises ''ReadTimeout'')\<rparr>
        [JNull] ''TICK-2'' [''Approved'']
        \<lparr>attempts = 7, applied = 2, blocked = 5, requests = []\<rparr>)
     = \<lparr>attempts = 8, applied = 2, blocked = 5,
         requests = [''https://jira/rest/api/3/issue/TICK-2'']\<rparr>"
  by (simp add: zpa_enforce_def Let_def lower_def lower_char_def get_issue_def)

text \<open>
  Whenever \<^verbatim>\<open>zpa_enforce\<close> returns a decision, it has counted one attempt and exactly
  one of an accepted or a blocked call, the one its decision names.
\<close>

lemma enforce_counters_on_decision:
  assumes "zpa_enforce getenv repr jc patch key allow s0 = (Inr d, s1)"
  shows "attempts s1 = attempts s0 + 1
       \<and> ((applied s1 = applied s0 + 1 \<and> blocked s1 = blocked s0 \<and> status d = ''accepted'')
          \<or> (applied s1 = applied s0 \<and> blocked s1 = blocked s0 + 1 \<and> status d = ''blocked''))"
  using assms
  by (auto simp add: zpa_enforce_def Let_def split: if_splits prod.splits sum.splits)

section \<open>A body without a status name\<close>

lemma status_name_absent:
  assumes "no_status_name data"
  shows "status_name (JDict [(''status_code'', JInt sc), (''data'', data)]) = Inr (JStr [])"
proof (cases data)
  case (JDict d)
  show ?thesis
  proof (cases "map_of d ''fields''")
    case None
    then show ?thesis using JDict by (simp add: status_name_def)
  next
    case (Some f)
    show ?thesis
    proof (cases f)
      case fd: (JDict fd)
      show ?thesis
      proof (cases "map_of fd ''status''")
        case None
        then show ?thesis using JDict Some fd by (simp add: status_name_def)
      next
        case st: (Some st)
        show ?thesis
        proof (cases st)
          case sd: (JDict sd)
          then show ?thesis
            using assms JDict Some fd st by (simp add: status_name_def no_status_name_def)
        qed (use assms JDict Some fd st in \<open>simp_all add: no_status_name_def\<close>)
      qed
    qed (use assms JDict Some in \<open>simp_all add: no_status_name_def\<close>)
  qed
qed (use assms in \<open>simp_all add: no_status_name_def\<close>)

text \<open>
  C10, as the code has it. When enforcement is enabled and the lookup returns a JSON object
  in which \<^verbatim>\<open>fields\<close>, then \<^verbatim>\<open>status\<close>, then \<^verbatim>\<open>name\<close> is absent (every key before the
  absent one bound to an object), the observed status is the empty string: the decision is
  accepted with \<^verbatim>\<open>applied_ops\<close> the length of the patch when the allowlist holds the
  empty string, and blocked otherwise.
\<close>

theorem enforce_no_status_name:
  assumes "enforcement_enabled getenv"
      and "session_get jc (base jc @ ''/rest/api/3/issue/'' @ key) = Responds sc (Some data) rtext"
      and "no_status_name data"
  shows "zpa_enforce getenv repr jc patch key allow s0 =
     (if [] \<in> set allow then
        (Inr \<lparr>status = ''accepted'', reason = None, applied_ops = Some (length patch),
              note_text = Some ''Map patch ops to ZPA API calls in your tenant''\<rparr>,
         s0\<lparr>attempts := attempts s0 + 1,
            requests := requests s0 @ [base jc @ ''/rest/api/3/issue/'' @ key],
            applied := applied s0 + 1\<rparr>)
      else
        (Inr \<lparr>status = ''blocked'',
              reason = Some (''JIRA status '' @ [CHR 0x27] @ [CHR 0x27]
                             @ '' not in allowlist '' @ repr (JList (map JStr allow))),
              applied_ops = None, note_text = None\<rparr>,
         s0\<lparr>attempts := attempts s0 + 1,
            requests := requests s0 @ [base jc @ ''/rest/api/3/issue/'' @ key],
            blocked := blocked s0 + 1\<rparr>))"
proof -
  let ?ji = "JDict [(''status_code'', JInt sc), (''data'', data)]"
  have g: "get_issue jc key (requests s0)
             = (Inr ?ji, requests s0 @ [base jc @ ''/rest/api/3/issue/'' @ key])"
    using assms(2) by (simp add: get_issue_def Let_def)
  have n: "status_name ?ji = Inr (JStr [])"
    using assms(3) by (rule status_name_absent)
  show ?thesis
    using enforce_on_status[OF assms(1) g n, of repr patch allow] by simp
qed

text \<open>
  The theorem on an error body of the ticketing system, with an allowlist that holds the
  empty string.
\<close>

theorem enforce_no_status_name_witness:
  "enforcement_enabled (\<lambda>k. Some ''true'')
   \<and> no_status_name (JDict [(''errorMessages'', JList [JStr ''Issue does not exist'']),
                             (''errors'', JDict [])])
   \<and> zpa_enforce (\<lambda>k. Some ''true'') (\<lambda>j. ''[..]'')
        \<lparr>base = ''https://jira'',
         session_get = (\<lambda>u. Responds 404
            (Some (JDict [(''errorMessages'', JList [JStr ''Issue does not exist'']),
                          (''errors'', JDict [])])) [])\<rparr>
        [JNull, JNull] ''TICK-1'' [''Approved'', '''']
        \<lparr>attempts = 0, applied = 0, blocked = 0, requests = []\<rparr>
     = (Inr \<lparr>status = ''accepted'', reason = None, applied_ops = Some 2,
             note_text = Some ''Map patch ops to ZPA API calls in your tenant''\<rparr>,
        \<lparr>attempts = 1, applied = 1, blocked = 0,
         requests = [''https://jira/rest/api/3/issue/TICK-1'']\<rparr>)"
  using enforce_no_status_name[where getenv = "\<lambda>k. Some ''true''" and repr = "\<lambda>j. ''[..]''"
        and jc = "\<lparr>base = ''https://jira'',
         session_get = (\<lambda>u. Responds 404
            (Some (JDict [(''errorMessages'', JList [JStr ''Issue does not exist'']),
                          (''errors'', JDict [])])) [])\<rparr>"
        and patch = "[JNull, JNull]" and key = "''TICK-1''" and allow = "[''Approved'', '''']"
        and ?s0.0 = "\<lparr>attempts = 0, applied = 0, blocked = 0, requests = []\<rparr>"
        and sc = "404" and rtext = "[]"
        and data = "JDict [(''errorMessages'', JList [JStr ''Issue does not exist'']),
                           (''errors'', JDict [])]"]
  by (simp add: enforcement_enabled_def lower_def lower_char_def no_status_name_def)

text \<open>
  C10 as stated fails: an issue whose \<^verbatim>\<open>status\<close> is \<^verbatim>\<open>null\<close>, and a body that is a
  JSON array, carry no status name, the allowlist holds the empty string, and
  \<^verbatim>\<open>zpa_enforce\<close> returns neither decision.
\<close>

theorem enforce_no_status_name_counterexample:
  "fst (zpa_enforce (\<lambda>k. Some ''true'') (\<lambda>j. ''[..]'')
        \<lparr>base = ''https://jira'',
         session_get = (\<lambda>u. Responds 200
            (Some (JDict [(''fields'', JDict [(''status'', JNull)])])) [])\<rparr>
        [JNull] ''TICK-1'' [''Approved'', '''']
        \<lparr>attempts = 0, applied = 0, blocked = 0, requests = []\<rparr>)
     = Inl AttributeError
   \<and> fst (zpa_enforce (\<lambda>k. Some ''true'') (\<lambda>j. ''[..]'')
        \<lparr>base = ''https://jira'', session_get = (\<lambda>u. Responds 200 (Some (JList [])) [])\<rparr>
        [JNull] ''TICK-1'' [''Approved'', '''']
        \<lparr>attempts = 0, applied = 0, blocked = 0, requests = []\<rparr>)
     = Inl AttributeError"
  by (simp add: zpa_enforce_def Let_def lower_def lower_char_def get_issue_def status_name_def)

end
